theory Spec2Isabelle
  imports Complex_Main
begin

section \<open>The data the application handles\<close>

text \<open>
  The application (\<^verbatim>\<open>gold_loan_llm_app3.py\<close>) loads one spreadsheet into a pandas
  DataFrame, asks a language model for one Python expression over that frame, evaluates
  the expression with \<^verbatim>\<open>eval\<close> and displays the value.

  A DataFrame has two axes: the row labels (its index) and the columns. Both lengths are
  kept, because \<^verbatim>\<open>len(frame)\<close> is the length of the index while
  \<^verbatim>\<open>frame.empty\<close> holds as soon as either axis has length zero.
\<close>

datatype dtype = Int64 | Float64 | Object | Boolean | Datetime64

fun dtype_str :: "dtype \<Rightarrow> string" where
  "dtype_str Int64 = ''int64''"
| "dtype_str Float64 = ''float64''"
| "dtype_str Object = ''object''"
| "dtype_str Boolean = ''bool''"
| "dtype_str Datetime64 = ''datetime64[ns]''"

datatype cell = CInt int | CFloat real | CStr string | CBool bool

record column =
  col_name :: string
  col_dtype :: dtype
  col_values :: "cell list"

record dataframe =
  df_index :: "nat list"
  df_columns :: "column list"

record series =
  ser_name :: string
  ser_dtype :: dtype
  ser_index :: "nat list"
  ser_values :: "cell list"

text \<open>\<^verbatim>\<open>len(frame)\<close>, \<^verbatim>\<open>frame.empty\<close> and \<^verbatim>\<open>frame.head()\<close> (the first five rows).\<close>

definition df_len :: "dataframe \<Rightarrow> nat" where
  "df_len f = length (df_index f)"

definition df_empty :: "dataframe \<Rightarrow> bool" where
  "df_empty f = (length (df_index f) = 0 \<or> length (df_columns f) = 0)"

definition df_head :: "dataframe \<Rightarrow> dataframe" where
  "df_head f =
     \<lparr>df_index = take 5 (df_index f),
      df_columns = map (\<lambda>c. c\<lparr>col_values := take 5 (col_values c)\<rparr>) (df_columns f)\<rparr>"

text \<open>
  The values an evaluated expression can have. \<open>VDf\<close> is the session's own DataFrame
  object, the one bound to the name \<^verbatim>\<open>df\<close>: it is a reference, and its content is
  read from the state. \<open>VFrame\<close> and \<open>VSeries\<close> are objects an operation has newly built.
  \<open>VPd\<close> is the pandas module, bound to \<^verbatim>\<open>pd\<close>. A float is represented by the real
  number it denotes (finite floats only).
\<close>

datatype pyval =
    VNone
  | VBool bool
  | VInt int
  | VFloat real
  | VStr string
  | VDf
  | VFrame dataframe
  | VSeries series
  | VPd

text \<open>The exceptions evaluation raises; all of them are subclasses of \<^verbatim>\<open>Exception\<close>.\<close>

datatype py_exception =
    SyntaxError
  | UnresolvedName string
  | TypeError
  | KeyError string
  | AttributeError
  | ValueError

text \<open>
  The Python values a decoded JSON document consists of (\<^verbatim>\<open>json.loads\<close>): \<open>JNone\<close> is
  \<^verbatim>\<open>None\<close>, a \<open>JDict\<close> lists the items of a dict (keys distinct).
\<close>

datatype json =
    JNone
  | JBool bool
  | JNum real
  | JStr string
  | JList "json list"
  | JDict "(string \<times> json) list"

text \<open>
  The exceptions the call to the language model can raise. In httpx,
  \<^verbatim>\<open>RequestError\<close> (connection failures, timeouts) and \<^verbatim>\<open>HTTPStatusError\<close> (raised by
  \<^verbatim>\<open>raise_for_status\<close>) are two separate subclasses of \<^verbatim>\<open>HTTPError\<close>: neither is a
  subclass of the other. The last four are the built-in exceptions that the accesses
  into the decoded response raise.
\<close>

datatype api_exception =
    RequestError string
  | HTTPStatusError nat
  | JSONDecodeError
  | Api_AttributeError
  | Api_TypeError
  | Api_KeyError
  | Api_IndexError
  | Other_exception string

section \<open>What the page shows\<close>

text \<open>
  Every message of the source is one constructor; the fixed text is quoted beside it and
  the interpolated value is the constructor's argument.
\<close>

datatype msg =
    Invalid_structure
      \<comment> \<open>"LLM did not return a valid structured response. Please try again."\<close>
  | Communication_error api_exception
      \<comment> \<open>"Error communicating with the Gemini API. Please check your internet connection
          or API key. Details: {e}"\<close>
  | Json_parse_error
      \<comment> \<open>"Failed to parse JSON response from LLM. The LLM might have returned malformed JSON."\<close>
  | Unexpected_error api_exception
      \<comment> \<open>"An unexpected error occurred during API call: {e}"\<close>
  | Loaded_successfully
      \<comment> \<open>"Excel sheet '{EXCEL_FILE_PATH}' loaded successfully!"\<close>
  | Preview_caption
      \<comment> \<open>"Here's a preview of your data:"\<close>
  | File_not_found
      \<comment> \<open>"Error: The file '{EXCEL_FILE_PATH}' was not found. ..."\<close>
  | Read_error string
      \<comment> \<open>"Error reading Excel file from path '{EXCEL_FILE_PATH}': {e}. ..."\<close>
  | Extracted_data
      \<comment> \<open>"Here is your extracted data:"\<close>
  | Rows_matched nat
      \<comment> \<open>"{len(exec_result)} rows matched your query."\<close>
  | No_data_matched
      \<comment> \<open>"No data matched your query."\<close>
  | Your_answer
      \<comment> \<open>"Here is your answer:"\<close>
  | Result_is pyval
      \<comment> \<open>"The result is: {exec_result}"\<close>
  | No_specific_data
      \<comment> \<open>"The query was processed, but no specific data was returned. Please try
          rephrasing your question."\<close>
  | Execution_error py_exception
      \<comment> \<open>"An error occurred while executing the generated code. ... Error: {e}"\<close>
  | Generated_code json
      \<comment> \<open>"Generated code (for debugging): {python_code}"\<close>
  | Could_not_generate
      \<comment> \<open>"Could not generate a valid Python query from your question. Please try rephrasing."\<close>
  | Enter_a_question
      \<comment> \<open>"Please enter a question to get an answer."\<close>

text \<open>
  What a run of the script does to the outside, in order: the calls into the presentation
  layer, the one HTTP request to the language model (with the prompt's two interpolated
  values, the schema description and the question), the call of \<^verbatim>\<open>eval\<close> (with the
  code it is given), and an exception that no handler of the script catches.
\<close>

datatype effect =
    St_error msg
  | St_warning msg
  | St_info msg
  | St_success msg
  | St_subheader msg
  | St_write msg
  | St_code msg
  | St_dataframe dataframe
  | St_text_input
  | St_button
  | Http_post string string
  | Py_eval json
  | Uncaught py_exception

section \<open>Classifying and rendering the evaluated value\<close>

text \<open>
  \<^verbatim>\<open>isinstance(exec_result, pd.DataFrame)\<close>: the value is the session's frame itself or a
  frame an operation built. The first argument is the session's frame at the time of
  rendering.
\<close>

fun as_dataframe :: "dataframe \<Rightarrow> pyval \<Rightarrow> dataframe option" where
  "as_dataframe d VDf = Some d"
| "as_dataframe d (VFrame f) = Some f"
| "as_dataframe d v = None"

text \<open>Lines 212 to 224 of the source.\<close>

definition render_result :: "dataframe \<Rightarrow> pyval \<Rightarrow> effect list" where
  "render_result d exec_result =
     (case as_dataframe d exec_result of
        Some f \<Rightarrow>
          if \<not> df_empty f
          then [St_subheader Extracted_data, St_dataframe f, St_success (Rows_matched (df_len f))]
          else [St_info No_data_matched]
      | None \<Rightarrow>
          if exec_result \<noteq> VNone
          then [St_subheader Your_answer, St_success (Result_is exec_result)]
          else [St_info No_specific_data])"

section \<open>The Schema Summarizer\<close>

text \<open>
  \<^verbatim>\<open>frame[key]\<close> with a string key selects by column label: no column of that label
  raises KeyError, one gives the column as a Series, several (pandas allows repeated
  labels) give a DataFrame of those columns.
\<close>

definition series_of :: "dataframe \<Rightarrow> column \<Rightarrow> series" where
  "series_of f c =
     \<lparr>ser_name = col_name c, ser_dtype = col_dtype c,
      ser_index = df_index f, ser_values = col_values c\<rparr>"

definition getitem_column :: "dataframe \<Rightarrow> string \<Rightarrow> py_exception + pyval" where
  "getitem_column f key =
     (case filter (\<lambda>c. col_name c = key) (df_columns f) of
        [] \<Rightarrow> Inl (KeyError key)
      | [c] \<Rightarrow> Inr (VSeries (series_of f c))
      | cs \<Rightarrow> Inr (VFrame \<lparr>df_index = df_index f, df_columns = cs\<rparr>))"

text \<open>
  One element of the list comprehension of lines 166 and 167:
  \<^verbatim>\<open>f"'{col}' ({st.session_state.df[col].dtype})"\<close>. Only a Series has the attribute
  \<^verbatim>\<open>dtype\<close>.
\<close>

definition column_entry :: "string \<Rightarrow> dtype \<Rightarrow> string" where
  "column_entry col t = [CHR 0x27] @ col @ [CHR 0x27] @ '' ('' @ dtype_str t @ '')''"

definition column_info :: "dataframe \<Rightarrow> string \<Rightarrow> py_exception + string" where
  "column_info f col =
     (case getitem_column f col of
        Inl e \<Rightarrow> Inl e
      | Inr (VSeries s) \<Rightarrow> Inr (column_entry col (ser_dtype s))
      | Inr _ \<Rightarrow> Inl AttributeError)"

fun columns_info :: "dataframe \<Rightarrow> string list \<Rightarrow> py_exception + string list" where
  "columns_info f [] = Inr []"
| "columns_info f (col # cols) =
     (case column_info f col of
        Inl e \<Rightarrow> Inl e
      | Inr s \<Rightarrow>
          (case columns_info f cols of
             Inl e \<Rightarrow> Inl e
           | Inr ss \<Rightarrow> Inr (s # ss)))"

text \<open>\<^verbatim>\<open>sep.join(items)\<close>.\<close>

fun join :: "string \<Rightarrow> string list \<Rightarrow> string" where
  "join sep [] = []"
| "join sep [x] = x"
| "join sep (x # y # ys) = x @ sep @ join sep (y # ys)"

definition df_columns_info :: "dataframe \<Rightarrow> py_exception + string" where
  "df_columns_info f =
     (case columns_info f (map col_name (df_columns f)) of
        Inl e \<Rightarrow> Inl e
      | Inr ss \<Rightarrow> Inr (join '', '' ss))"


section \<open>The Query Synthesizer: \<^verbatim>\<open>call_gemini_api\<close>\<close>

text \<open>Truth value, \<^verbatim>\<open>x.get(key)\<close>, \<^verbatim>\<open>x[0]\<close> and \<^verbatim>\<open>x[key]\<close> on decoded JSON.\<close>

fun truthy :: "json \<Rightarrow> bool" where
  "truthy JNone = False"
| "truthy (JBool b) = b"
| "truthy (JNum r) = (r \<noteq> 0)"
| "truthy (JStr s) = (s \<noteq> [])"
| "truthy (JList xs) = (xs \<noteq> [])"
| "truthy (JDict kvs) = (kvs \<noteq> [])"

fun py_get :: "json \<Rightarrow> string \<Rightarrow> api_exception + json" where
  "py_get (JDict kvs) key = Inr (case map_of kvs key of None \<Rightarrow> JNone | Some v \<Rightarrow> v)"
| "py_get x key = Inl Api_AttributeError"

fun py_first :: "json \<Rightarrow> api_exception + json" where
  "py_first (JList []) = Inl Api_IndexError"
| "py_first (JList (x # xs)) = Inr x"
| "py_first (JStr []) = Inl Api_IndexError"
| "py_first (JStr (c # cs)) = Inr (JStr [c])"
| "py_first (JDict kvs) = Inl Api_KeyError"
| "py_first x = Inl Api_TypeError"

fun py_item :: "json \<Rightarrow> string \<Rightarrow> api_exception + json" where
  "py_item (JDict kvs) key = (case map_of kvs key of None \<Rightarrow> Inl Api_KeyError | Some v \<Rightarrow> Inr v)"
| "py_item x key = Inl Api_TypeError"

text \<open>Sequencing of steps that can raise: the first exception ends the sequence.\<close>

definition and_then :: "'e + 'a \<Rightarrow> ('a \<Rightarrow> 'e + 'b) \<Rightarrow> 'e + 'b" where
  "and_then r k = (case r of Inl e \<Rightarrow> Inl e | Inr x \<Rightarrow> k x)"

text \<open>
  What the transport does with the request: \<^verbatim>\<open>client.post\<close> raises, or returns a
  response with a status code and a body.
\<close>

record response =
  status_code :: nat
  resp_body :: string

datatype post_outcome = Post_raises api_exception | Post_returns response

text \<open>
  \<^verbatim>\<open>response.raise_for_status()\<close>: httpx raises \<^verbatim>\<open>HTTPStatusError\<close> unless the status
  is a 2xx.
\<close>

definition raise_for_status :: "response \<Rightarrow> api_exception + unit" where
  "raise_for_status r =
     (if 200 \<le> status_code r \<and> status_code r < 300 then Inr ()
      else Inl (HTTPStatusError (status_code r)))"

text \<open>
  \<^verbatim>\<open>json.loads\<close> on a string is a parameter \<open>loads\<close> (\<open>None\<close>: the text is not JSON, and
  JSONDecodeError is raised). \<^verbatim>\<open>response.json()\<close> decodes the body the same way, and
  \<^verbatim>\<open>json.loads\<close> of a value that is not a string raises TypeError.
\<close>

definition json_loads :: "(string \<Rightarrow> json option) \<Rightarrow> json \<Rightarrow> api_exception + json" where
  "json_loads loads x =
     (case x of
        JStr s \<Rightarrow> (case loads s of None \<Rightarrow> Inl JSONDecodeError | Some v \<Rightarrow> Inr v)
      | _ \<Rightarrow> Inl Api_TypeError)"

text \<open>
  The three conjuncts of the condition of lines 55 and 56, evaluated left to right with
  the short circuit of \<^verbatim>\<open>and\<close>; each access can raise.
\<close>

definition has_parts :: "json \<Rightarrow> api_exception + bool" where
  "has_parts result =
     and_then (py_get result ''candidates'') (\<lambda>c.
       if \<not> truthy c then Inr False
       else
         and_then (py_item result ''candidates'') (\<lambda>cs.
         and_then (py_first cs) (\<lambda>c0.
         and_then (py_get c0 ''content'') (\<lambda>content.
           if \<not> truthy content then Inr False
           else
             and_then (py_item c0 ''content'') (\<lambda>content'.
             and_then (py_get content' ''parts'') (\<lambda>parts. Inr (truthy parts)))))))"

text \<open>Line 57: \<^verbatim>\<open>result['candidates'][0]['content']['parts'][0]['text']\<close>.\<close>

definition first_part_text :: "json \<Rightarrow> api_exception + json" where
  "first_part_text result =
     and_then (py_item result ''candidates'') (\<lambda>cs.
     and_then (py_first cs) (\<lambda>c0.
     and_then (py_item c0 ''content'') (\<lambda>content.
     and_then (py_item content ''parts'') (\<lambda>parts.
     and_then (py_first parts) (\<lambda>p0.
       py_item p0 ''text'')))))"

text \<open>
  The body of the \<^verbatim>\<open>try\<close> (lines 45 to 62): the effects and the returned value, or the
  exception that leaves it.
\<close>

definition api_try_body ::
  "(string \<Rightarrow> json option) \<Rightarrow> post_outcome \<Rightarrow> api_exception + (effect list \<times> json)" where
  "api_try_body loads outcome =
     (case outcome of
        Post_raises e \<Rightarrow> Inl e
      | Post_returns r \<Rightarrow>
          and_then (raise_for_status r) (\<lambda>_.
          and_then (case loads (resp_body r) of None \<Rightarrow> Inl JSONDecodeError | Some v \<Rightarrow> Inr v) (\<lambda>result.
          and_then (has_parts result) (\<lambda>ok.
            if ok then
              and_then (first_part_text result) (\<lambda>json_response_str.
              and_then (json_loads loads json_response_str) (\<lambda>parsed_json.
              and_then (py_get parsed_json ''python_code'') (\<lambda>code.
                Inr ([], code))))
            else Inr ([St_error Invalid_structure], JNone)))))"

text \<open>
  The \<^verbatim>\<open>except\<close> clauses, in the order of the source: \<^verbatim>\<open>httpx.RequestError\<close>,
  \<^verbatim>\<open>json.JSONDecodeError\<close>, \<^verbatim>\<open>Exception\<close>.
\<close>

fun api_handler :: "api_exception \<Rightarrow> effect" where
  "api_handler (RequestError d) = St_error (Communication_error (RequestError d))"
| "api_handler JSONDecodeError = St_error Json_parse_error"
| "api_handler e = St_error (Unexpected_error e)"

text \<open>
  \<^verbatim>\<open>call_gemini_api(prompt_text, df_columns_info)\<close>. The prompt is the f-string of lines
  169 to 201 with its two holes filled, the schema description and the question; it is
  posted once. The second parameter is not used by the body, as in the source.
\<close>

definition call_gemini_api ::
  "(string \<Rightarrow> json option) \<Rightarrow> (string \<Rightarrow> string \<Rightarrow> post_outcome) \<Rightarrow>
   string \<times> string \<Rightarrow> string \<Rightarrow> effect list \<times> json" where
  "call_gemini_api loads transport prompt_text df_columns_info' =
     (case api_try_body loads (transport (fst prompt_text) (snd prompt_text)) of
        Inl e \<Rightarrow> ([Http_post (fst prompt_text) (snd prompt_text), api_handler e], JNone)
      | Inr (shown, code) \<Rightarrow> (Http_post (fst prompt_text) (snd prompt_text) # shown, code))"

section \<open>Evaluating the generated expression\<close>

text \<open>
  Line 210 hands the generated text to Python's \<^verbatim>\<open>eval\<close>, with the globals
  \<^verbatim>\<open>{'__builtins__': None}\<close> and the locals \<^verbatim>\<open>{'df': st.session_state.df, 'pd': pd}\<close>.
  The locals hold the session's DataFrame object itself, not a copy.

  The expressions modelled are those built from literals, names, \<^verbatim>\<open>or\<close>, \<^verbatim>\<open>and\<close>,
  \<^verbatim>\<open>not\<close>, the conditional expression, the call of a named function and four
  operations on the bound objects, each with its concrete syntax:
  \<^item> \<open>Call_name f e\<close> is \<^verbatim>\<open>f(e)\<close>, as in \<^verbatim>\<open>len(df)\<close>,
  \<^item> \<open>Subscript e k\<close> is \<^verbatim>\<open>e['k']\<close>,
  \<^item> \<open>Attr_empty e\<close> is \<^verbatim>\<open>e.empty\<close>,
  \<^item> \<open>Call_pop e k\<close> is \<^verbatim>\<open>e.pop('k')\<close>,
  \<^item> \<open>Call_sample e\<close> is \<^verbatim>\<open>e.sample()\<close>.
  \<open>IfExp test body orelse\<close> is \<^verbatim>\<open>body if test else orelse\<close>, with the fields in the order
  of Python's syntax tree.
\<close>

datatype literal = LNone | LBool bool | LInt int | LFloat real | LStr string

datatype expr =
    Lit literal
  | Name string
  | Bool_or expr expr
  | Bool_and expr expr
  | Not_op expr
  | IfExp expr expr expr
  | Call_name string expr
  | Subscript expr string
  | Attr_empty expr
  | Call_pop expr string
  | Call_sample expr

fun lit_val :: "literal \<Rightarrow> pyval" where
  "lit_val LNone = VNone"
| "lit_val (LBool b) = VBool b"
| "lit_val (LInt i) = VInt i"
| "lit_val (LFloat r) = VFloat r"
| "lit_val (LStr s) = VStr s"

text \<open>
  The state evaluation runs in: the session's DataFrame object, and the process-wide
  random generator that \<^verbatim>\<open>sample\<close> draws from. The generator is represented by the
  sequence of numbers it is going to deliver and the count of those already taken.
\<close>

record world =
  session_df :: dataframe
  rng_draws :: "nat \<Rightarrow> nat"
  rng_pos :: nat

text \<open>
  The two dictionaries of line 209 and 210. A name is looked up in the locals, then in
  the globals, then in the builtins; the builtins are \<^verbatim>\<open>None\<close> here, so the last step
  raises for every name (TypeError or NameError, depending on the interpreter's version;
  \<open>UnresolvedName\<close> stands for either). The key \<^verbatim>\<open>__builtins__\<close> of the globals is itself
  a name that resolves, to \<^verbatim>\<open>None\<close>.
\<close>

definition local_vars :: "(string \<times> pyval) list" where
  "local_vars = [(''df'', VDf), (''pd'', VPd)]"

definition global_vars :: "(string \<times> pyval) list" where
  "global_vars = [(''__builtins__'', VNone)]"

definition load_name :: "string \<Rightarrow> py_exception + pyval" where
  "load_name x =
     (case map_of local_vars x of
        Some v \<Rightarrow> Inr v
      | None \<Rightarrow>
          (case map_of global_vars x of
             Some v \<Rightarrow> Inr v
           | None \<Rightarrow> Inl (UnresolvedName x)))"

text \<open>
  The truth value of an object. For a DataFrame and a Series pandas raises ValueError
  ("The truth value of a DataFrame is ambiguous").
\<close>

fun truth :: "pyval \<Rightarrow> py_exception + bool" where
  "truth VNone = Inr False"
| "truth (VBool b) = Inr b"
| "truth (VInt i) = Inr (i \<noteq> 0)"
| "truth (VFloat r) = Inr (r \<noteq> 0)"
| "truth (VStr s) = Inr (s \<noteq> [])"
| "truth VDf = Inl ValueError"
| "truth (VFrame f) = Inl ValueError"
| "truth (VSeries s) = Inl ValueError"
| "truth VPd = Inr True"

text \<open>
  \<^verbatim>\<open>x['k']\<close>: a column of a frame; a Series built here is labelled by row numbers, so a
  string is not among its labels (KeyError); the other objects are not subscriptable, and
  a string is indexed by integers only (TypeError).
\<close>

fun getitem :: "pyval \<Rightarrow> string \<Rightarrow> world \<Rightarrow> py_exception + pyval" where
  "getitem VDf k w = getitem_column (session_df w) k"
| "getitem (VFrame f) k w = getitem_column f k"
| "getitem (VSeries s) k w = Inl (KeyError k)"
| "getitem v k w = Inl TypeError"

text \<open>\<^verbatim>\<open>x.empty\<close>: frames and Series have the attribute, nothing else here does.\<close>

fun attr_empty :: "pyval \<Rightarrow> world \<Rightarrow> py_exception + pyval" where
  "attr_empty VDf w = Inr (VBool (df_empty (session_df w)))"
| "attr_empty (VFrame f) w = Inr (VBool (df_empty f))"
| "attr_empty (VSeries s) w = Inr (VBool (length (ser_index s) = 0))"
| "attr_empty v w = Inl AttributeError"

text \<open>
  \<^verbatim>\<open>frame.pop('k')\<close> is \<^verbatim>\<open>result = frame['k']; del frame['k']; return result\<close>: it
  removes the column from the frame it is called on, in place. Called on the session's
  frame it changes the state; called on a frame the expression has just built it changes
  an object nothing else refers to.
\<close>

definition delitem :: "dataframe \<Rightarrow> string \<Rightarrow> dataframe" where
  "delitem f k = f\<lparr>df_columns := filter (\<lambda>c. col_name c \<noteq> k) (df_columns f)\<rparr>"

fun call_pop :: "pyval \<Rightarrow> string \<Rightarrow> world \<Rightarrow> (py_exception + pyval) \<times> world" where
  "call_pop VDf k w =
     (case getitem_column (session_df w) k of
        Inl e \<Rightarrow> (Inl e, w)
      | Inr r \<Rightarrow> (Inr r, w\<lparr>session_df := delitem (session_df w) k\<rparr>))"
| "call_pop (VFrame f) k w = (getitem_column f k, w)"
| "call_pop (VSeries s) k w = (Inl (KeyError k), w)"
| "call_pop v k w = (Inl AttributeError, w)"

text \<open>
  \<^verbatim>\<open>x.sample()\<close> returns one row (one element of a Series) chosen by the random
  generator, and raises ValueError when there is none to choose from. The row chosen is
  the generator's next number, reduced to the range of positions.
\<close>

definition row_at :: "dataframe \<Rightarrow> nat \<Rightarrow> dataframe" where
  "row_at f p =
     \<lparr>df_index = take 1 (drop p (df_index f)),
      df_columns = map (\<lambda>c. c\<lparr>col_values := take 1 (drop p (col_values c))\<rparr>) (df_columns f)\<rparr>"

definition element_at :: "series \<Rightarrow> nat \<Rightarrow> series" where
  "element_at s p =
     s\<lparr>ser_index := take 1 (drop p (ser_index s)), ser_values := take 1 (drop p (ser_values s))\<rparr>"

definition next_draw :: "world \<Rightarrow> nat \<Rightarrow> nat \<times> world" where
  "next_draw w n = (rng_draws w (rng_pos w) mod n, w\<lparr>rng_pos := Suc (rng_pos w)\<rparr>)"

definition sample_frame :: "dataframe \<Rightarrow> world \<Rightarrow> (py_exception + pyval) \<times> world" where
  "sample_frame f w =
     (if df_len f = 0 then (Inl ValueError, w)
      else (case next_draw w (df_len f) of (p, w') \<Rightarrow> (Inr (VFrame (row_at f p)), w')))"

definition sample_series :: "series \<Rightarrow> world \<Rightarrow> (py_exception + pyval) \<times> world" where
  "sample_series s w =
     (if length (ser_index s) = 0 then (Inl ValueError, w)
      else (case next_draw w (length (ser_index s)) of
              (p, w') \<Rightarrow> (Inr (VSeries (element_at s p)), w')))"

fun call_sample :: "pyval \<Rightarrow> world \<Rightarrow> (py_exception + pyval) \<times> world" where
  "call_sample VDf w = sample_frame (session_df w) w"
| "call_sample (VFrame f) w = sample_frame f w"
| "call_sample (VSeries s) w = sample_series s w"
| "call_sample v w = (Inl AttributeError, w)"

text \<open>
  A call \<^verbatim>\<open>f(x)\<close> of what a name stands for: none of the three objects a name can
  stand for here (the frame, the module, \<^verbatim>\<open>None\<close>) is callable.
\<close>

fun call_object :: "pyval \<Rightarrow> pyval \<Rightarrow> py_exception + pyval" where
  "call_object callee arg = Inl TypeError"

text \<open>
  The evaluation of an expression: its value or the exception it raises, and the state
  it leaves. In a call the function is evaluated first, then the argument. What an
  operand has done to the state stays done when a later step raises.
\<close>

fun eval_expr :: "expr \<Rightarrow> world \<Rightarrow> (py_exception + pyval) \<times> world" where
  "eval_expr (Lit c) w = (Inr (lit_val c), w)"
| "eval_expr (Name x) w = (load_name x, w)"
| "eval_expr (Bool_or a b) w =
     (case eval_expr a w of
        (Inl e, w') \<Rightarrow> (Inl e, w')
      | (Inr v, w') \<Rightarrow>
          (case truth v of
             Inl e \<Rightarrow> (Inl e, w')
           | Inr t \<Rightarrow> if t then (Inr v, w') else eval_expr b w'))"
| "eval_expr (Bool_and a b) w =
     (case eval_expr a w of
        (Inl e, w') \<Rightarrow> (Inl e, w')
      | (Inr v, w') \<Rightarrow>
          (case truth v of
             Inl e \<Rightarrow> (Inl e, w')
           | Inr t \<Rightarrow> if t then eval_expr b w' else (Inr v, w')))"
| "eval_expr (Not_op a) w =
     (case eval_expr a w of
        (Inl e, w') \<Rightarrow> (Inl e, w')
      | (Inr v, w') \<Rightarrow>
          (case truth v of
             Inl e \<Rightarrow> (Inl e, w')
           | Inr t \<Rightarrow> (Inr (VBool (\<not> t)), w')))"
| "eval_expr (IfExp test body orelse) w =
     (case eval_expr test w of
        (Inl e, w') \<Rightarrow> (Inl e, w')
      | (Inr v, w') \<Rightarrow>
          (case truth v of
             Inl e \<Rightarrow> (Inl e, w')
           | Inr t \<Rightarrow> if t then eval_expr body w' else eval_expr orelse w'))"
| "eval_expr (Call_name f a) w =
     (case load_name f of
        Inl e \<Rightarrow> (Inl e, w)
      | Inr callee \<Rightarrow>
          (case eval_expr a w of
             (Inl e, w') \<Rightarrow> (Inl e, w')
           | (Inr v, w') \<Rightarrow> (call_object callee v, w')))"
| "eval_expr (Subscript a k) w =
     (case eval_expr a w of
        (Inl e, w') \<Rightarrow> (Inl e, w')
      | (Inr v, w') \<Rightarrow> (getitem v k w', w'))"
| "eval_expr (Attr_empty a) w =
     (case eval_expr a w of
        (Inl e, w') \<Rightarrow> (Inl e, w')
      | (Inr v, w') \<Rightarrow> (attr_empty v w', w'))"
| "eval_expr (Call_pop a k) w =
     (case eval_expr a w of
        (Inl e, w') \<Rightarrow> (Inl e, w')
      | (Inr v, w') \<Rightarrow> call_pop v k w')"
| "eval_expr (Call_sample a) w =
     (case eval_expr a w of
        (Inl e, w') \<Rightarrow> (Inl e, w')
      | (Inr v, w') \<Rightarrow> call_sample v w')"

text \<open>
  \<^verbatim>\<open>eval(python_code, ...)\<close>. Python's parser is the parameter \<open>parse\<close> (\<open>None\<close>: the
  text is not an expression, SyntaxError). A value that is not a string is refused with
  TypeError.
\<close>

definition py_eval ::
  "(string \<Rightarrow> expr option) \<Rightarrow> json \<Rightarrow> world \<Rightarrow> (py_exception + pyval) \<times> world" where
  "py_eval parse python_code w =
     (case python_code of
        JStr s \<Rightarrow> (case parse s of None \<Rightarrow> (Inl SyntaxError, w) | Some e \<Rightarrow> eval_expr e w)
      | _ \<Rightarrow> (Inl TypeError, w))"

text \<open>Lines 206 to 231: what the script does with the code the model returned.\<close>

definition run_generated_code ::
  "(string \<Rightarrow> expr option) \<Rightarrow> json \<Rightarrow> world \<Rightarrow> effect list \<times> world" where
  "run_generated_code parse python_code w =
     (if truthy python_code then
        (case py_eval parse python_code w of
           (Inr exec_result, w') \<Rightarrow>
             (Py_eval python_code # render_result (session_df w') exec_result, w')
         | (Inl e, w') \<Rightarrow>
             ([Py_eval python_code, St_error (Execution_error e),
               St_code (Generated_code python_code)], w'))
      else ([St_warning Could_not_generate], w))"

section \<open>The script\<close>

text \<open>
  What \<^verbatim>\<open>pd.read_excel\<close> does: it returns a frame, raises FileNotFoundError, or raises
  another exception.
\<close>

datatype load_outcome = Load_returns dataframe | Load_file_not_found | Load_raises string

text \<open>
  Lines 133 to 149. The session's \<^verbatim>\<open>df\<close> is \<^verbatim>\<open>None\<close> or a frame; every branch of the
  \<^verbatim>\<open>try\<close> assigns it, whatever it held before.
\<close>

definition load_dataset :: "dataframe option \<Rightarrow> load_outcome \<Rightarrow> effect list \<times> dataframe option" where
  "load_dataset previous outcome =
     (case outcome of
        Load_returns df_loaded \<Rightarrow>
          ([St_success Loaded_successfully, St_write Preview_caption,
            St_dataframe (df_head df_loaded)], Some df_loaded)
      | Load_file_not_found \<Rightarrow> ([St_error File_not_found], None)
      | Load_raises e \<Rightarrow> ([St_error (Read_error e)], None))"

text \<open>
  What one run of the script receives from outside: the loader's outcome, the content of
  the text input, whether the button was pressed, the transport, and the two library
  functions taken as parameters.
\<close>

record environment =
  env_read_excel :: load_outcome
  env_user_query :: string
  env_button :: bool
  env_transport :: "string \<Rightarrow> string \<Rightarrow> post_outcome"
  env_loads :: "string \<Rightarrow> json option"
  env_parse :: "string \<Rightarrow> expr option"

text \<open>
  Lines 162 to 233, the body of \<^verbatim>\<open>if st.button("Get Answer")\<close>. The schema description
  is computed outside every \<^verbatim>\<open>try\<close>: an exception there ends the run.
\<close>

definition get_answer :: "environment \<Rightarrow> world \<Rightarrow> effect list \<times> world" where
  "get_answer env w =
     (if env_user_query env \<noteq> [] then
        (case df_columns_info (session_df w) of
           Inl e \<Rightarrow> ([Uncaught e], w)
         | Inr info \<Rightarrow>
             (case call_gemini_api (env_loads env) (env_transport env) (info, env_user_query env) info of
                (called, python_code) \<Rightarrow>
                  (case run_generated_code (env_parse env) python_code w of
                     (shown, w') \<Rightarrow> (called @ shown, w'))))
      else ([St_warning Enter_a_question], w))"

text \<open>
  Lines 154 to 233: the query interface, shown only when the session holds a frame. The
  state of a session is its frame (or \<^verbatim>\<open>None\<close>) and the random generator.
\<close>

record session =
  state_df :: "dataframe option"
  state_draws :: "nat \<Rightarrow> nat"
  state_pos :: nat

definition query_interface :: "environment \<Rightarrow> session \<Rightarrow> effect list \<times> session" where
  "query_interface env s =
     (case state_df s of
        None \<Rightarrow> ([], s)
      | Some d \<Rightarrow>
          if env_button env then
            (case get_answer env \<lparr>session_df = d, rng_draws = state_draws s, rng_pos = state_pos s\<rparr> of
               (shown, w') \<Rightarrow>
                 ([St_text_input, St_button] @ shown,
                  \<lparr>state_df = Some (session_df w'), state_draws = rng_draws w', state_pos = rng_pos w'\<rparr>))
          else ([St_text_input, St_button], s))"

text \<open>
  One run of the script, from the top: the load, then the query interface. The page
  configuration, the style sheet, the title and the introduction (lines 76 to 130) are
  the same in every run and are left out.
\<close>

definition run_script :: "environment \<Rightarrow> session \<Rightarrow> effect list \<times> session" where
  "run_script env s =
     (case load_dataset (state_df s) (env_read_excel env) of
        (shown, loaded) \<Rightarrow>
          (case query_interface env (s\<lparr>state_df := loaded\<rparr>) of
             (shown', s') \<Rightarrow> (shown @ shown', s')))"

section \<open>Syntactic properties of expressions\<close>






section \<open>Example inputs\<close>

text \<open>A Dataset of three loans, a state holding it, and the parses of six expressions.\<close>

definition example_df :: dataframe where
  "example_df =
     \<lparr>df_index = [0, 1, 2],
      df_columns =
        [\<lparr>col_name = ''Loan Amount (INR)'', col_dtype = Int64,
          col_values = [CInt 100000, CInt 250000, CInt 400000]\<rparr>,
         \<lparr>col_name = ''Customer Name'', col_dtype = Object,
          col_values = [CStr ''Rahul Sharma'', CStr ''Priya Singh'', CStr ''Rahul Sharma'']\<rparr>]\<rparr>"

definition example_world :: world where
  "example_world = \<lparr>session_df = example_df, rng_draws = (\<lambda>n. n), rng_pos = 0\<rparr>"

definition example_parse :: "string \<Rightarrow> expr option" where
  "example_parse =
     map_of
       [(''1 or x'', Bool_or (Lit (LInt 1)) (Name ''x'')),
        (''len(df)'', Call_name ''len'' (Name ''df'')),
        (''__builtins__'', Name ''__builtins__''),
        (''df.pop('Customer Name')'', Call_pop (Name ''df'') ''Customer Name''),
        (''df['Loan Amount (INR)']'', Subscript (Name ''df'') ''Loan Amount (INR)''),
        (''df.sample()'', Call_sample (Name ''df''))]"

text \<open>
  A response of the model whose expression is the empty string: the body of the HTTP
  response, the text of its first part, and what \<^verbatim>\<open>json.loads\<close> makes of the two.
\<close>

definition example_text :: string where
  \<open>example_text = ''{"python_code": ""}''\<close>

definition example_body :: string where
  \<open>example_body =
     ''{"candidates": [{"content": {"parts": [{"text": "{'' @ [CHR 0x5C] @ ''"python_code'' @
     [CHR 0x5C] @ ''": '' @ [CHR 0x5C] @ ''"'' @ [CHR 0x5C] @ ''"}"}]}}]}''\<close>

definition example_loads :: "string \<Rightarrow> json option" where
  "example_loads =
     map_of
       [(example_text, JDict [(''python_code'', JStr [])]),
        (example_body,
         JDict [(''candidates'',
           JList [JDict [(''content'',
             JDict [(''parts'', JList [JDict [(''text'', JStr example_text)]])])]])])]"

definition example_env :: environment where
  "example_env =
     \<lparr>env_read_excel = Load_returns example_df,
      env_user_query = ''What is the average loan amount?'',
      env_button = True,
      env_transport = (\<lambda>schema question. Post_returns \<lparr>status_code = 200, resp_body = example_body\<rparr>),
      env_loads = example_loads,
      env_parse = example_parse\<rparr>"

definition example_session :: session where
  "example_session = \<lparr>state_df = None, state_draws = (\<lambda>n. n), state_pos = 0\<rparr>"

section \<open>The Result Classifier and Renderer\<close>






section \<open>The Schema Summarizer lists the columns\<close>

lemma filter_distinct_name:
  "distinct (map col_name cs) \<Longrightarrow> c \<in> set cs \<Longrightarrow>
   filter (\<lambda>c'. col_name c' = col_name c) cs = [c]"
proof (induction cs)
  case Nil
  then show ?case by simp
next
  case (Cons a cs)
  show ?case
  proof (cases "a = c")
    case True
    from Cons.prems True have "col_name c \<notin> col_name ` set cs" by simp
    then have "\<forall>c' \<in> set cs. col_name c' \<noteq> col_name c" by (metis imageI)
    then have "filter (\<lambda>c'. col_name c' = col_name c) cs = []"
      by (simp add: filter_empty_conv)
    with True show ?thesis by simp
  next
    case False
    with Cons.prems have "c \<in> set cs" "col_name a \<noteq> col_name c" by auto
    with Cons show ?thesis by simp
  qed
qed

lemma column_info_of_column:
  "distinct (map col_name (df_columns f)) \<Longrightarrow> c \<in> set (df_columns f) \<Longrightarrow>
   column_info f (col_name c) = Inr (column_entry (col_name c) (col_dtype c))"
  by (simp add: column_info_def getitem_column_def filter_distinct_name series_of_def)

lemma columns_info_of_columns:
  "distinct (map col_name (df_columns f)) \<Longrightarrow> set cs \<subseteq> set (df_columns f) \<Longrightarrow>
   columns_info f (map col_name cs) =
     Inr (map (\<lambda>c. column_entry (col_name c) (col_dtype c)) cs)"
  by (induction cs) (simp_all add: column_info_of_column)



section \<open>The Query Synthesizer and a failing status\<close>

text \<open>
  C2: a response with status 500 leaves the \<^verbatim>\<open>try\<close> through \<^verbatim>\<open>raise_for_status\<close> as an
  \<^verbatim>\<open>HTTPStatusError\<close>, which the clause for \<^verbatim>\<open>httpx.RequestError\<close> does not catch: the
  request is posted once, the generic message "An unexpected error occurred during API
  call" is shown and \<^verbatim>\<open>None\<close> is returned. The message "Error communicating with the
  Gemini API. Please check your internet connection or API key." is shown for a
  \<^verbatim>\<open>RequestError\<close> only.
\<close>

theorem http_500_reported_as_unexpected:
  "call_gemini_api loads
     (\<lambda>schema question. Post_returns \<lparr>status_code = 500, resp_body = b\<rparr>)
     (schema, question) schema =
     ([Http_post schema question, St_error (Unexpected_error (HTTPStatusError 500))], JNone) \<and>
   call_gemini_api loads
     (\<lambda>schema question. Post_raises (RequestError details)) (schema, question) schema =
     ([Http_post schema question, St_error (Communication_error (RequestError details))], JNone)"
  by (simp add: call_gemini_api_def api_try_body_def raise_for_status_def and_then_def)

section \<open>The script: loading, and questions that are not answered\<close>

text \<open>
  C6: when the load fails, with either exception, the run shows the error notice and
  nothing else, and leaves the session without a frame, whatever it held before. The
  text input is shown exactly when the load has returned a frame.
\<close>

theorem load_failure_hides_query_interface:
  "(env_read_excel env = Load_file_not_found \<longrightarrow>
      run_script env s = ([St_error File_not_found], s\<lparr>state_df := None\<rparr>)) \<and>
   (env_read_excel env = Load_raises e \<longrightarrow>
      run_script env s = ([St_error (Read_error e)], s\<lparr>state_df := None\<rparr>)) \<and>
   (St_text_input \<in> set (fst (run_script env s)) \<longleftrightarrow>
      (\<exists>d. env_read_excel env = Load_returns d))"
  by (cases "env_read_excel env")
     (auto simp add: run_script_def load_dataset_def query_interface_def split: prod.splits)

text \<open>
  C6 on three runs: a missing file in a session that held a frame, an unreadable file,
  and a successful load.
\<close>

theorem load_failure_hides_query_interface_witness:
  "run_script (example_env\<lparr>env_read_excel := Load_file_not_found\<rparr>)
       (example_session\<lparr>state_df := Some example_df\<rparr>) =
     ([St_error File_not_found], example_session) \<and>
   run_script (example_env\<lparr>env_read_excel := Load_raises ''not a zip file''\<rparr>) example_session =
     ([St_error (Read_error ''not a zip file'')], example_session) \<and>
   St_text_input \<in> set (fst (run_script example_env example_session))"
  using load_failure_hides_query_interface
      [of "example_env\<lparr>env_read_excel := Load_file_not_found\<rparr>"
          "example_session\<lparr>state_df := Some example_df\<rparr>"]
    load_failure_hides_query_interface
      [of "example_env\<lparr>env_read_excel := Load_raises ''not a zip file''\<rparr>"
          example_session "''not a zip file''"]
    load_failure_hides_query_interface [of example_env example_session]
  by (simp add: example_env_def example_session_def)

text \<open>
  C7: when the button is pressed on an empty question, the run shows the loaded data, the
  two controls and the warning "Please enter a question to get an answer.", and nothing
  else: no request is posted and nothing is evaluated. The session keeps the loaded frame.
\<close>

theorem empty_question_rejected:
  assumes "env_read_excel env = Load_returns d" and "env_button env" and "env_user_query env = []"
  shows "run_script env s =
           ([St_success Loaded_successfully, St_write Preview_caption, St_dataframe (df_head d),
             St_text_input, St_button, St_warning Enter_a_question],
            s\<lparr>state_df := Some d\<rparr>)"
  using assms
  by (simp add: run_script_def load_dataset_def query_interface_def get_answer_def)

text \<open>C7 on the example session.\<close>

theorem empty_question_rejected_witness:
  "run_script (example_env\<lparr>env_user_query := []\<rparr>) example_session =
     ([St_success Loaded_successfully, St_write Preview_caption, St_dataframe (df_head example_df),
       St_text_input, St_button, St_warning Enter_a_question],
      example_session\<lparr>state_df := Some example_df\<rparr>)"
  using empty_question_rejected
    [of "example_env\<lparr>env_user_query := []\<rparr>" example_df example_session]
  by (simp add: example_env_def)

text \<open>
  C9: when the call to the model returns the empty string, the script does what it does
  when the call returns \<^verbatim>\<open>None\<close>: after the effects of the call it shows the warning
  "Could not generate a valid Python query from your question." and nothing more;
  \<^verbatim>\<open>eval\<close> is not called, nothing is rendered and the state is unchanged.
\<close>

theorem empty_expression_not_evaluated:
  assumes "env_user_query env \<noteq> []"
    and "df_columns_info (session_df w) = Inr info"
    and "call_gemini_api (env_loads env) (env_transport env) (info, env_user_query env) info =
           (called, python_code)"
    and "python_code = JStr [] \<or> python_code = JNone"
  shows "get_answer env w = (called @ [St_warning Could_not_generate], w)"
  using assms by (auto simp add: get_answer_def run_generated_code_def)

lemma example_loads_text: "example_loads example_text = Some (JDict [(''python_code'', JStr [])])"
  by (simp add: example_loads_def)

lemma example_loads_body:
  "example_loads example_body =
     Some (JDict [(''candidates'',
             JList [JDict [(''content'',
               JDict [(''parts'', JList [JDict [(''text'', JStr example_text)]])])]])])"
  by (simp add: example_loads_def example_body_def example_text_def)

lemma example_call:
  "call_gemini_api example_loads (env_transport example_env) (info, q) info =
     ([Http_post info q], JStr [])"
  by (simp add: call_gemini_api_def api_try_body_def raise_for_status_def and_then_def
      example_env_def example_loads_body example_loads_text has_parts_def first_part_text_def
      json_loads_def)

text \<open>
  C9 on the example response, a well-formed envelope whose \<^verbatim>\<open>python_code\<close> is the empty
  string.
\<close>

theorem empty_expression_not_evaluated_witness:
  "get_answer example_env example_world =
     ([Http_post '''Loan Amount (INR)' (int64), 'Customer Name' (object)''
         ''What is the average loan amount?'',
       St_warning Could_not_generate], example_world)"
proof -
  have info: "df_columns_info (session_df example_world) =
      Inr '''Loan Amount (INR)' (int64), 'Customer Name' (object)''"
    using columns_info_of_columns [of example_df "df_columns example_df"]
    by (simp add: example_world_def df_columns_info_def example_df_def column_entry_def)
  have q: "env_user_query example_env = ''What is the average loan amount?''"
    "env_loads example_env = example_loads"
    by (simp_all add: example_env_def)
  show ?thesis
    using empty_expression_not_evaluated [OF _ info, of example_env _ "JStr []"] example_call q
    by simp
qed

section \<open>Evaluation: names outside the bindings\<close>


text \<open>
  The name \<^verbatim>\<open>__builtins__\<close> is neither \<^verbatim>\<open>df\<close> nor \<^verbatim>\<open>pd\<close>, and it evaluates: to
  \<^verbatim>\<open>None\<close>, the value the globals give it.
\<close>

lemma builtins_name_evaluates_to_none:
  "run_generated_code example_parse (JStr ''__builtins__'') example_world =
     ([Py_eval (JStr ''__builtins__''), St_info No_specific_data], example_world)"
  by (simp add: example_parse_def run_generated_code_def py_eval_def load_name_def
      local_vars_def global_vars_def render_result_def)





section \<open>Evaluation: what it does to the Dataset\<close>








section \<open>Evaluation: the same expression twice\<close>








end
